theory Spec2Isabelle
  imports Complex_Main "HOL-Library.Word"
begin

section \<open>JavaScript strings\<close>

text \<open>
  A JavaScript string is a sequence of UTF-16 code units. \<open>ascii\<close> writes a string
  of ASCII characters as code units; it is used for the literals of the source
  (\<^verbatim>\<open>"RUB"\<close>, \<^verbatim>\<open>"-"\<close>) and for examples.
\<close>

type_synonym code_unit = "16 word"
type_synonym jsstring = "code_unit list"

definition ascii :: "string \<Rightarrow> jsstring" where
  "ascii s = map (\<lambda>c. of_nat (of_char c)) s"

text \<open>
  The code units that ECMAScript counts as WhiteSpace or LineTerminator: the class
  \<^verbatim>\<open>\s\<close> of a regular expression, and what \<^verbatim>\<open>String.prototype.trim\<close> strips.
\<close>

definition is_ws :: "code_unit \<Rightarrow> bool" where
  "is_ws c \<longleftrightarrow>
     c = 0x0009 \<or> c = 0x000A \<or> c = 0x000B \<or> c = 0x000C \<or> c = 0x000D \<or>
     c = 0x0020 \<or> c = 0x00A0 \<or> c = 0x1680 \<or> (0x2000 \<le> c \<and> c \<le> 0x200A) \<or>
     c = 0x2028 \<or> c = 0x2029 \<or> c = 0x202F \<or> c = 0x205F \<or> c = 0x3000 \<or>
     c = 0xFEFF"

definition trim :: "jsstring \<Rightarrow> jsstring" where
  "trim s = rev (dropWhile is_ws (rev (dropWhile is_ws s)))"

definition hyphen :: code_unit where
  "hyphen = 0x002D"

text \<open>
  \<^verbatim>\<open>s.replace(/\s+/g, "-")\<close>: the global replace scans from the left; where the
  pattern matches, the greedy \<^verbatim>\<open>\s+\<close> takes the whole run of whitespace that
  starts there and one hyphen is written for it; any other code unit is copied.
\<close>

function replace_whitespace :: "jsstring \<Rightarrow> jsstring" where
  "replace_whitespace [] = []"
| "replace_whitespace (c # cs) =
     (if is_ws c then hyphen # replace_whitespace (dropWhile is_ws cs)
      else c # replace_whitespace cs)"
  by pat_completeness auto
termination
  by (relation "measure length") (auto simp: length_dropWhile_le less_Suc_eq_le)

text \<open>
  The same normalisation in the words of the specification: the string is cut into
  its maximal runs of whitespace and of non-whitespace, and every run of whitespace
  is replaced by a hyphen.
\<close>

fun ws_runs :: "jsstring \<Rightarrow> jsstring list" where
  "ws_runs [] = []"
| "ws_runs (c # cs) =
     (case ws_runs cs of
        [] \<Rightarrow> [[c]]
      | r # rs \<Rightarrow> if is_ws c = is_ws (hd r) then (c # r) # rs else [c] # r # rs)"

definition hyphenate_run :: "jsstring \<Rightarrow> jsstring" where
  "hyphenate_run r = (if is_ws (hd r) then [hyphen] else r)"

definition hyphenate_runs :: "jsstring \<Rightarrow> jsstring" where
  "hyphenate_runs s = concat (map hyphenate_run (ws_runs s))"

text \<open>The decimal digits of a natural number, as code units.\<close>

fun decimal :: "nat \<Rightarrow> jsstring" where
  "decimal n =
     (if n < 10 then [of_nat (48 + n)]
      else decimal (n div 10) @ [of_nat (48 + n mod 10)])"

declare decimal.simps [simp del]

text \<open>
  An application id is a non-negative integer below \<open>2 ^ 53\<close>. On this range a JSON
  number is read exactly and \<^verbatim>\<open>Number.prototype.toString()\<close> gives its plain decimal
  digits (beyond it a number is rounded, and from \<open>10 ^ 21\<close> on printed with an
  exponent); the type keeps the model inside the range.
\<close>

type_synonym app_id = "53 word"

definition toString_appid :: "app_id \<Rightarrow> jsstring" where
  "toString_appid i = decimal (unat i)"

text \<open>
  \<^verbatim>\<open>String.prototype.toLowerCase\<close> and \<^verbatim>\<open>Number(...)\<close> belong to the JavaScript
  runtime; the functions below take them as parameters. On strings of ASCII code units
  \<^verbatim>\<open>toLowerCase\<close> is the following function, which the examples use.
\<close>

definition ascii_toLowerCase :: "jsstring \<Rightarrow> jsstring" where
  "ascii_toLowerCase s = map (\<lambda>c. if 0x0041 \<le> c \<and> c \<le> 0x005A then c + 0x0020 else c) s"


section \<open>The data model of the client (App.tsx)\<close>

datatype source = Steam | Epic | Gog | Other

text \<open>
  \<^verbatim>\<open>interface Game\<close>. An optional attribute (\<^verbatim>\<open>?: T | null\<close>) is an option:
  \<open>None\<close> stands for \<^verbatim>\<open>undefined\<close> and for \<^verbatim>\<open>null\<close>, which no reader of the
  record tells apart. The type of numbers is the parameter \<open>'n\<close>.
\<close>

record 'n game =
  g_id :: jsstring
  title :: jsstring
  source :: source
  external_id :: "jsstring option"
  current_price :: "'n option"
  original_price :: "'n option"
  currency :: "jsstring option"
  discount_percent :: "'n option"
  is_tracked :: bool

text \<open>A request to the backend either fails (the promise rejects) or yields its data.\<close>

datatype error = RequestFailed

record ('n, 'e) app =
  games :: "'n game list"
  events :: "'e list"
  loading :: bool
  error :: "jsstring option"

definition save_error_text :: jsstring where
  "save_error_text =
     [0x041E, 0x0448, 0x0438, 0x0431, 0x043A, 0x0430, 0x0020, 0x043F, 0x0440, 0x0438,
      0x0020, 0x0441, 0x043E, 0x0445, 0x0440, 0x0430, 0x043D, 0x0435, 0x043D, 0x0438,
      0x0438, 0x0020, 0x0441, 0x043F, 0x0438, 0x0441, 0x043A, 0x0430, 0x0020, 0x0438,
      0x0433, 0x0440, 0x002E]"

text \<open>
  \<^verbatim>\<open>updateWatchlist\<close>: the list is stored first, then posted; a failed post only sets
  the error message.
\<close>

definition updateWatchlist ::
  "('n game list \<Rightarrow> error + unit) \<Rightarrow> 'n game list \<Rightarrow> ('n, 'e) app \<Rightarrow> ('n, 'e) app" where
  "updateWatchlist post updatedGames a =
     (let a' = a\<lparr>games := updatedGames\<rparr>
      in case post updatedGames of
           Inr _ \<Rightarrow> a'
         | Inl _ \<Rightarrow> a'\<lparr>error := Some save_error_text\<rparr>)"

text \<open>\<^verbatim>\<open>onEventsAppended\<close> as App passes it to the chat panel.\<close>

definition onEventsAppended :: "'e list \<Rightarrow> ('n, 'e) app \<Rightarrow> ('n, 'e) app" where
  "onEventsAppended newEvents a = a\<lparr>events := events a @ newEvents\<rparr>"


section \<open>The watchlist panel (WatchlistPanel.tsx)\<close>

text \<open>One entry of the storefront search result: \<^verbatim>\<open>{appid, name, price_formatted, ...}\<close>.\<close>

record steam_result =
  appid :: "app_id option"
  name :: "jsstring option"

text \<open>
  \<^verbatim>\<open>searchSteamGame\<close>. The request is the parameter \<open>get\<close>, from the title searched
  for to the outcome: a failure, or the response data, which is \<^verbatim>\<open>null\<close> or a list.
  Every failure is caught and gives \<^verbatim>\<open>null\<close>.
\<close>

definition searchSteamGame ::
  "(jsstring \<Rightarrow> error + steam_result list option) \<Rightarrow> jsstring \<Rightarrow> steam_result option" where
  "searchSteamGame get gameTitle =
     (case get gameTitle of
        Inl _ \<Rightarrow> None
      | Inr None \<Rightarrow> None
      | Inr (Some []) \<Rightarrow> None
      | Inr (Some (game # _)) \<Rightarrow> Some game)"

record watchlist_panel =
  w_title :: jsstring
  w_price :: jsstring
  w_loading :: bool

text \<open>The object literal \<^verbatim>\<open>newGame\<close> of \<^verbatim>\<open>handleAdd\<close>.\<close>

definition newGame ::
  "(jsstring \<Rightarrow> jsstring) \<Rightarrow> (jsstring \<Rightarrow> 'n) \<Rightarrow> steam_result option \<Rightarrow> jsstring \<Rightarrow> jsstring
     \<Rightarrow> 'n game" where
  "newGame toLowerCase Number steamGame ttl price =
     \<lparr> g_id = replace_whitespace (toLowerCase ttl),
       title =
         (case steamGame of
            None \<Rightarrow> trim ttl
          | Some g \<Rightarrow>
              (case name g of
                 None \<Rightarrow> trim ttl
               | Some n \<Rightarrow> if n = [] then trim ttl else n)),
       source = Steam,
       external_id =
         (case steamGame of
            None \<Rightarrow> None
          | Some g \<Rightarrow>
              (case appid g of
                 None \<Rightarrow> None
               | Some i \<Rightarrow> if toString_appid i = [] then None else Some (toString_appid i))),
       current_price = (if price = [] then None else Some (Number price)),
       original_price = None,
       currency = Some (ascii ''RUB''),
       discount_percent = None,
       is_tracked = True \<rparr>"

text \<open>
  \<^verbatim>\<open>handleAdd\<close>, for the list \<open>gs\<close> the panel was rendered with: the new panel
  state and the list handed to \<^verbatim>\<open>onChange\<close>, if it is called.
\<close>

definition handleAdd ::
  "(jsstring \<Rightarrow> jsstring) \<Rightarrow> (jsstring \<Rightarrow> 'n) \<Rightarrow> (jsstring \<Rightarrow> error + steam_result list option)
     \<Rightarrow> 'n game list \<Rightarrow> watchlist_panel \<Rightarrow> watchlist_panel \<times> 'n game list option" where
  "handleAdd toLowerCase Number get gs st =
     (if trim (w_title st) = [] then (st, None)
      else
        let steamGame = searchSteamGame get (trim (w_title st));
            g = newGame toLowerCase Number steamGame (w_title st) (w_price st)
        in (st\<lparr>w_title := [], w_price := [], w_loading := False\<rparr>, Some (gs @ [g])))"

definition handleRemove :: "jsstring \<Rightarrow> 'n game list \<Rightarrow> 'n game list" where
  "handleRemove i gs = filter (\<lambda>g. g_id g \<noteq> i) gs"

text \<open>
  The panel as App mounts it: \<^verbatim>\<open>games\<close> is App's list and \<^verbatim>\<open>onChange\<close> is
  \<^verbatim>\<open>updateWatchlist\<close>.
\<close>

definition watchlist_add ::
  "(jsstring \<Rightarrow> jsstring) \<Rightarrow> (jsstring \<Rightarrow> 'n) \<Rightarrow> (jsstring \<Rightarrow> error + steam_result list option)
     \<Rightarrow> ('n game list \<Rightarrow> error + unit) \<Rightarrow> ('n, 'e) app \<times> watchlist_panel
     \<Rightarrow> ('n, 'e) app \<times> watchlist_panel" where
  "watchlist_add toLowerCase Number get post = (\<lambda>(a, st).
     (case handleAdd toLowerCase Number get (games a) st of
        (st', None) \<Rightarrow> (a, st')
      | (st', Some gs) \<Rightarrow> (updateWatchlist post gs a, st')))"


section \<open>The chat panel (ChatPanel.tsx)\<close>

datatype role = User | Assistant

record chat_message =
  role :: role
  content :: jsstring

record chat_request =
  history :: "chat_message list"
  user_message :: jsstring

text \<open>The data of a chat response; \<^verbatim>\<open>events\<close> may be missing.\<close>

record 'e chat_response =
  reply :: jsstring
  reply_events :: "'e list option"

record chat_panel =
  messages :: "chat_message list"
  input :: jsstring
  sending :: bool

definition backend_error_text :: jsstring where
  "backend_error_text =
     [0x041F, 0x0440, 0x043E, 0x0438, 0x0437, 0x043E, 0x0448, 0x043B, 0x0430, 0x0020,
      0x043E, 0x0448, 0x0438, 0x0431, 0x043A, 0x0430, 0x0020, 0x043F, 0x0440, 0x0438,
      0x0020, 0x043E, 0x0431, 0x0440, 0x0430, 0x0449, 0x0435, 0x043D, 0x0438, 0x0438,
      0x0020, 0x043A, 0x0020, 0x0062, 0x0061, 0x0063, 0x006B, 0x0065, 0x006E, 0x0064,
      0x002E, 0x0020, 0x041F, 0x0440, 0x043E, 0x0432, 0x0435, 0x0440, 0x044C, 0x002C,
      0x0020, 0x0447, 0x0442, 0x043E, 0x0020, 0x0441, 0x0435, 0x0440, 0x0432, 0x0435,
      0x0440, 0x0020, 0x0437, 0x0430, 0x043F, 0x0443, 0x0449, 0x0435, 0x043D, 0x002E]"

text \<open>
  What one call of \<^verbatim>\<open>handleSend\<close> does: the panel state it leaves, the requests it
  posted to \<^verbatim>\<open>/chat\<close>, and the argument of \<^verbatim>\<open>onEventsAppended\<close> if that is called.
\<close>

record 'e send_effect =
  panel :: chat_panel
  requests :: "chat_request list"
  appended :: "'e list option"

definition handleSend ::
  "(chat_request \<Rightarrow> error + 'e chat_response) \<Rightarrow> chat_panel \<Rightarrow> 'e send_effect" where
  "handleSend post st =
     (let text = trim (input st)
      in if text = [] \<or> sending st
         then \<lparr> panel = st, requests = [], appended = None \<rparr>
         else
           let newMessages = messages st @ [\<lparr> role = User, content = text \<rparr>];
               historyPayload = map (\<lambda>m. \<lparr> role = role m, content = content m \<rparr>) newMessages;
               req = \<lparr> history = butlast historyPayload, user_message = text \<rparr>
           in case post req of
                Inr res \<Rightarrow>
                  let evs = (case reply_events res of None \<Rightarrow> [] | Some es \<Rightarrow> es)
                  in \<lparr> panel = \<lparr> messages = newMessages @ [\<lparr> role = Assistant, content = reply res \<rparr>],
                                input = [], sending = False \<rparr>,
                       requests = [req],
                       appended = (if evs \<noteq> [] then Some evs else None) \<rparr>
              | Inl _ \<Rightarrow>
                  \<lparr> panel = \<lparr> messages = newMessages @ [\<lparr> role = Assistant, content = backend_error_text \<rparr>],
                              input = [], sending = False \<rparr>,
                    requests = [req],
                    appended = None \<rparr>)"

text \<open>The chat panel as App mounts it: the events of a reply are appended to App's list.\<close>

definition chat_send ::
  "(chat_request \<Rightarrow> error + 'e chat_response) \<Rightarrow> ('n, 'e) app \<times> chat_panel
     \<Rightarrow> ('n, 'e) app \<times> chat_panel" where
  "chat_send post = (\<lambda>(a, st).
     (let eff = handleSend post st
      in (case appended eff of None \<Rightarrow> a | Some evs \<Rightarrow> onEventsAppended evs a, panel eff)))"


section \<open>The belief and event core (specification, sections 3 to 7)\<close>

text \<open>
  The repository's sources hold the client only: the backend module that implements the
  Belief Store, the Change Detector, the Event Ledger and the Context Assembler is not
  among them. Every definition of this section is therefore modelled from the
  specification; games and chat turns are the client's records, with rational prices.
\<close>

text \<open>Modelled from the spec: the enumeration of event types of section 3.\<close>

datatype event_type =
  Price_drop | Price_increase | Back_in_stock | Discount_started | Discount_ended | Chat_insight

text \<open>
  Modelled from the spec: the TrendEvent of section 3 (the client declares the same
  attributes in \<^verbatim>\<open>interface TrendEvent\<close>, with the type as a string).
\<close>

record trend_event =
  ev_id :: jsstring
  ev_game_id :: "jsstring option"
  ev_type :: event_type
  ev_title :: jsstring
  ev_description :: jsstring

text \<open>
  Modelled from the spec: what sections 4.2 to 4.4 call configurable. The defaults are a
  minimum relative change of 1 percent, a cooldown of 5 minutes (300 seconds) and the 10
  most recent events in a context; the ledger capacity has no fixed default. The wording
  of an event's title and description is not specified and is a parameter.
\<close>

record config =
  min_change_abs :: rat
  min_change_percent :: rat
  cooldown :: nat
  capacity :: nat
  recent_events :: nat
  label :: "event_type \<Rightarrow> rat game \<Rightarrow> jsstring"
  describe :: "event_type \<Rightarrow> rat game \<Rightarrow> jsstring"

text \<open>
  Modelled from the spec: the state of the core. The Belief Store is the list of games in
  insertion order, the Event Ledger the list of retained events, most recent last.
  \<open>next_event\<close> generates event ids; \<open>last_appended\<close> is the cooldown state of
  section 4.2: when an event of a type was last appended for a game id (in seconds).
\<close>

record core =
  store :: "rat game list"
  ledger :: "trend_event list"
  next_event :: nat
  last_appended :: "jsstring \<times> event_type \<Rightarrow> nat option"

subsection \<open>Belief Store\<close>

text \<open>Modelled from the spec: \<^verbatim>\<open>get(id) -> Game | not found\<close> of section 4.1.\<close>

definition get_game :: "jsstring \<Rightarrow> rat game list \<Rightarrow> rat game option" where
  "get_game i st = find (\<lambda>g. g_id g = i) st"

text \<open>
  Modelled from the spec: the merge of section 4.1, "fields present in the input
  overwrite, fields absent are preserved". A partial Game is a Game whose optional
  attributes may be absent.
\<close>

definition preserved :: "'a option \<Rightarrow> 'a option \<Rightarrow> 'a option" where
  "preserved new old = (case new of None \<Rightarrow> old | Some x \<Rightarrow> Some x)"

definition merge :: "rat game option \<Rightarrow> rat game \<Rightarrow> rat game" where
  "merge prior u =
     (case prior of
        None \<Rightarrow> u
      | Some p \<Rightarrow>
          \<lparr> g_id = g_id u, title = title u, source = source u,
            external_id = preserved (external_id u) (external_id p),
            current_price = preserved (current_price u) (current_price p),
            original_price = preserved (original_price u) (original_price p),
            currency = preserved (currency u) (currency p),
            discount_percent = preserved (discount_percent u) (discount_percent p),
            is_tracked = is_tracked u \<rparr>)"

text \<open>
  Modelled from the spec: storing a game by id, in place when the id is known and at the
  end (insertion order) when it is new.
\<close>

definition put :: "rat game \<Rightarrow> rat game list \<Rightarrow> rat game list" where
  "put g st =
     (if g_id g \<in> set (map g_id st)
      then map (\<lambda>g'. if g_id g' = g_id g then g else g') st
      else st @ [g])"

text \<open>Modelled from the spec: \<^verbatim>\<open>upsert(game) -> Game\<close> of section 4.1.\<close>

definition upsert :: "rat game \<Rightarrow> rat game list \<Rightarrow> rat game list \<times> rat game" where
  "upsert u st = (let m = merge (get_game (g_id u) st) u in (put m st, m))"

text \<open>Modelled from the spec: \<^verbatim>\<open>list(trackedOnly)\<close> of section 4.1.\<close>

definition list_games :: "bool \<Rightarrow> rat game list \<Rightarrow> rat game list" where
  "list_games trackedOnly st = (if trackedOnly then filter is_tracked st else st)"

subsection \<open>Event Ledger\<close>

text \<open>
  Modelled from the spec: \<^verbatim>\<open>append(event)\<close> of section 4.3 with bounded retention,
  "oldest events are evicted once the ledger exceeds a configured capacity": the ledger
  keeps the \<open>cap\<close> most recent events (\<open>last_n\<close>).
\<close>

text \<open>Modelled from the spec: the \<open>n\<close> most recent entries of a sequence kept most recent last.\<close>

definition last_n :: "nat \<Rightarrow> 'a list \<Rightarrow> 'a list" where
  "last_n n xs = drop (length xs - n) xs"

definition append_event :: "nat \<Rightarrow> trend_event \<Rightarrow> trend_event list \<Rightarrow> trend_event list" where
  "append_event cap e evs = last_n cap (evs @ [e])"

text \<open>
  Modelled from the spec: \<^verbatim>\<open>list(limit, sinceId?)\<close> of section 4.3, most recent last.
  With a cursor, the events after it; a cursor that is no longer retained gives the whole
  retained window. The limit keeps the most recent events.
\<close>

definition list_events :: "trend_event list \<Rightarrow> nat \<Rightarrow> jsstring option \<Rightarrow> trend_event list" where
  "list_events evs limit sinceId =
     (let window =
        (case sinceId of
           None \<Rightarrow> evs
         | Some cur \<Rightarrow>
             if cur \<in> set (map ev_id evs)
             then tl (dropWhile (\<lambda>e. ev_id e \<noteq> cur) evs)
             else evs)
      in last_n limit window)"

subsection \<open>Change Detector\<close>

text \<open>
  Modelled from the spec: "discount_percent > 0", false for an absent value; and the
  current_price of the prior Game, absent when there is no prior record.
\<close>

definition positive :: "rat option \<Rightarrow> bool" where
  "positive d = (case d of None \<Rightarrow> False | Some x \<Rightarrow> 0 < x)"

definition prior_price :: "rat game option \<Rightarrow> rat option" where
  "prior_price prior = (case prior of None \<Rightarrow> None | Some p \<Rightarrow> current_price p)"

text \<open>
  Modelled from the spec: the rules of section 4.2, one per event type, for the prior
  Game of the id (if any) and the update.
  \<^item> discount_started: the prior had no current_price (or there was no prior record, as
    in the example of section 8), the update introduces one, and its discount_percent is
    positive;
  \<^item> discount_ended: the prior discount_percent is positive and the updated Game's is 0
    or absent. The updated Game is the merge of section 4.1: an update that omits
    discount_percent leaves the stored discount in place and so ends nothing, as the
    price-only updates of section 8 require;
  \<^item> price_drop: both prices are present and the updated one is lower by at least the
    minimum absolute and relative change (by default any decrease of 1 percent or more);
    price_increase is symmetric;
  \<^item> back_in_stock: the prior was tracked without a current_price and the update has one.
\<close>

fun fires :: "config \<Rightarrow> rat game option \<Rightarrow> rat game \<Rightarrow> event_type \<Rightarrow> bool" where
  "fires cfg prior u Discount_started \<longleftrightarrow>
     prior_price prior = None \<and> current_price u \<noteq> None \<and> positive (discount_percent u)"
| "fires cfg prior u Discount_ended \<longleftrightarrow>
     (case prior of
        None \<Rightarrow> False
      | Some p \<Rightarrow>
          positive (discount_percent p)
          \<and> (discount_percent (merge prior u) = Some 0
               \<or> discount_percent (merge prior u) = None))"
| "fires cfg prior u Price_drop \<longleftrightarrow>
     (case (prior_price prior, current_price u) of
        (Some old, Some new) \<Rightarrow>
          new < old \<and> min_change_abs cfg \<le> old - new
          \<and> min_change_percent cfg * old \<le> (old - new) * 100
      | _ \<Rightarrow> False)"
| "fires cfg prior u Price_increase \<longleftrightarrow>
     (case (prior_price prior, current_price u) of
        (Some old, Some new) \<Rightarrow>
          old < new \<and> min_change_abs cfg \<le> new - old
          \<and> min_change_percent cfg * old \<le> (new - old) * 100
      | _ \<Rightarrow> False)"
| "fires cfg prior u Back_in_stock \<longleftrightarrow>
     (case prior of
        None \<Rightarrow> False
      | Some p \<Rightarrow> is_tracked p \<and> current_price p = None \<and> current_price u \<noteq> None)"
| "fires cfg prior u Chat_insight \<longleftrightarrow> False"

declare fires.simps [simp del]

text \<open>Modelled from the spec: the priority order of the tie-break of section 4.2.\<close>

definition priority_order :: "event_type list" where
  "priority_order = [Discount_started, Price_drop, Price_increase, Discount_ended, Back_in_stock]"

text \<open>
  Modelled from the spec: the tie-break, "only the highest-priority applicable event";
  no rule fires, no event.
\<close>

definition detect :: "config \<Rightarrow> rat game option \<Rightarrow> rat game \<Rightarrow> event_type option" where
  "detect cfg prior u =
     (if fires cfg prior u Discount_started then Some Discount_started
      else if fires cfg prior u Price_drop then Some Price_drop
      else if fires cfg prior u Price_increase then Some Price_increase
      else if fires cfg prior u Discount_ended then Some Discount_ended
      else if fires cfg prior u Back_in_stock then Some Back_in_stock
      else None)"

text \<open>
  Modelled from the spec: the TrendEvent that the detector creates for a game, with a
  generated id.
\<close>

definition new_event :: "config \<Rightarrow> core \<Rightarrow> event_type \<Rightarrow> rat game \<Rightarrow> trend_event" where
  "new_event cfg c t g =
     \<lparr> ev_id = decimal (next_event c), ev_game_id = Some (g_id g), ev_type = t,
       ev_title = label cfg t g, ev_description = describe cfg t g \<rparr>"

text \<open>
  Modelled from the spec: the event that the detector emits for an update, before
  deduplication.
\<close>

definition emitted :: "config \<Rightarrow> rat game \<Rightarrow> core \<Rightarrow> trend_event option" where
  "emitted cfg u c =
     (let prior = get_game (g_id u) (store c)
      in case detect cfg prior u of
           None \<Rightarrow> None
         | Some t \<Rightarrow> Some (new_event cfg c t (merge prior u)))"

text \<open>
  Modelled from the spec: the deduplication of section 4.2, "an event is suppressed if an
  event of the same type for the same game id was appended within a short cooldown
  window". \<open>now\<close> is the time of the update in seconds.
\<close>

definition suppressed :: "config \<Rightarrow> core \<Rightarrow> jsstring \<Rightarrow> event_type \<Rightarrow> nat \<Rightarrow> bool" where
  "suppressed cfg c i t now =
     (case last_appended c (i, t) of
        None \<Rightarrow> False
      | Some t0 \<Rightarrow> now < t0 + cooldown cfg)"

text \<open>
  Modelled from the spec: \<^verbatim>\<open>apply(update) -> (Game, optional TrendEvent)\<close> of section
  4.2. The store is updated to the merged Game; on a non-suppressed fire the event is
  appended to the ledger in the same step. Updates are taken as validated (section 7
  rejects a malformed one before any state change).
\<close>

definition apply_update ::
  "config \<Rightarrow> nat \<Rightarrow> rat game \<Rightarrow> core \<Rightarrow> core \<times> rat game \<times> trend_event option" where
  "apply_update cfg now u c =
     (let merged = merge (get_game (g_id u) (store c)) u;
          c' = c\<lparr>store := put merged (store c)\<rparr>
      in case emitted cfg u c of
           None \<Rightarrow> (c', merged, None)
         | Some e \<Rightarrow>
             if suppressed cfg c (g_id u) (ev_type e) now then (c', merged, None)
             else
               (c'\<lparr>ledger := append_event (capacity cfg) e (ledger c),
                   next_event := Suc (next_event c),
                   last_appended := (last_appended c)((g_id u, ev_type e) \<mapsto> now)\<rparr>,
                merged, Some e))"

subsection \<open>Context Assembler\<close>

text \<open>
  Modelled from the spec: the ContextPayload of section 4.4, with the summary (title,
  price, discount) of a tracked game.
\<close>

record game_summary =
  s_title :: jsstring
  s_price :: "rat option"
  s_discount :: "rat option"

record context_payload =
  p_games :: "game_summary list"
  p_events :: "trend_event list"
  p_history :: "chat_message list"
  p_message :: jsstring

definition summary :: "rat game \<Rightarrow> game_summary" where
  "summary g = \<lparr> s_title = title g, s_price = current_price g, s_discount = discount_percent g \<rparr>"

text \<open>
  Modelled from the spec: \<^verbatim>\<open>buildContext(history, userMessage)\<close> of section 4.4: the
  summary of the tracked games and the most recent N ledger events, with the history and
  the new message. It is written in state-passing style, returning the state it leaves.
\<close>

definition buildContext ::
  "config \<Rightarrow> chat_message list \<Rightarrow> jsstring \<Rightarrow> core \<Rightarrow> context_payload \<times> core" where
  "buildContext cfg hist userMessage c =
     (\<lparr> p_games = map summary (list_games True (store c)),
        p_events = list_events (ledger c) (recent_events cfg) None,
        p_history = hist,
        p_message = userMessage \<rparr>, c)"

text \<open>
  Modelled from the spec: a fact extracted from a reply is a partial Game or a
  TrendEvent. A partial Game goes through the Change Detector; an extracted event is
  appended to the ledger under a generated id.
\<close>

datatype fact = GameFact "rat game" | EventFact trend_event

definition apply_fact ::
  "config \<Rightarrow> nat \<Rightarrow> core \<times> trend_event list \<Rightarrow> fact \<Rightarrow> core \<times> trend_event list" where
  "apply_fact cfg now = (\<lambda>(c, evs) f.
     (case f of
        GameFact u \<Rightarrow>
          (case apply_update cfg now u c of
             (c', _, None) \<Rightarrow> (c', evs)
           | (c', _, Some e) \<Rightarrow> (c', evs @ [e]))
      | EventFact e0 \<Rightarrow>
          (let e = e0\<lparr>ev_id := decimal (next_event c)\<rparr>
           in (c\<lparr>ledger := append_event (capacity cfg) e (ledger c),
                 next_event := Suc (next_event c)\<rparr>, evs @ [e]))))"

text \<open>Modelled from the spec: the error kinds of section 7.\<close>

datatype core_error = NotFound | ValidationFailure | CollaboratorUnavailable | CapacityExceeded

text \<open>
  Modelled from the spec: the language-model service of section 6,
  \<^verbatim>\<open>complete(contextPayload) -> replyText\<close>, which may fail and is retried once. The
  parameter \<open>llm\<close> gives the outcome of each attempt.
\<close>

definition complete_retrying ::
  "(nat \<Rightarrow> context_payload \<Rightarrow> core_error + jsstring) \<Rightarrow> context_payload \<Rightarrow> core_error + jsstring" where
  "complete_retrying llm payload =
     (case llm 0 payload of
        Inr r \<Rightarrow> Inr r
      | Inl _ \<Rightarrow> llm 1 payload)"

text \<open>
  Modelled from the spec: one chat turn (sections 4.4, 5 and 6). The context is built, the
  language model is called outside any state change, and only when the turn completed are
  the facts extracted from the reply applied; the reply comes back with the events that
  were generated. When the language model fails, the fact list is empty and the failure
  is handed to the caller.
\<close>

definition chat_turn ::
  "config \<Rightarrow> nat \<Rightarrow> (nat \<Rightarrow> context_payload \<Rightarrow> core_error + jsstring)
     \<Rightarrow> (jsstring \<Rightarrow> context_payload \<Rightarrow> fact list) \<Rightarrow> chat_message list \<Rightarrow> jsstring \<Rightarrow> core
     \<Rightarrow> core \<times> (core_error + trend_event chat_response)" where
  "chat_turn cfg now llm extractFacts hist userMessage c =
     (case buildContext cfg hist userMessage c of
        (payload, c0) \<Rightarrow>
          (case complete_retrying llm payload of
             Inl _ \<Rightarrow> (c0, Inl CollaboratorUnavailable)
           | Inr replyText \<Rightarrow>
               (case foldl (apply_fact cfg now) (c0, []) (extractFacts replyText payload) of
                  (c', evs) \<Rightarrow> (c', Inr \<lparr> reply = replyText, reply_events = Some evs \<rparr>))))"


section \<open>Examples\<close>

text \<open>Concrete panels and responses on which the theorems below are evaluated.\<close>

definition half_life_panel :: watchlist_panel where
  "half_life_panel = \<lparr> w_title = ascii '' Half  Life 2'', w_price = [], w_loading = False \<rparr>"

definition empty_app :: "(rat, unit) app" where
  "empty_app = \<lparr> games = [], events = [], loading = False, error = None \<rparr>"

definition blank_input_panel :: chat_panel where
  "blank_input_panel =
     \<lparr> messages = [\<lparr> role = Assistant, content = ascii ''Hi'' \<rparr>], input = ascii ''   '',
       sending = False \<rparr>"

definition in_flight_panel :: chat_panel where
  "in_flight_panel =
     \<lparr> messages = [\<lparr> role = User, content = ascii ''hello'' \<rparr>], input = ascii ''again'',
       sending = True \<rparr>"

definition ok_reply :: "chat_request \<Rightarrow> error + unit chat_response" where
  "ok_reply req = Inr \<lparr> reply = ascii ''ok'', reply_events = Some [()] \<rparr>"

definition portal_panel :: watchlist_panel where
  "portal_panel = \<lparr> w_title = ascii ''Portal'', w_price = [], w_loading = False \<rparr>"

definition portal_found :: "jsstring \<Rightarrow> error + steam_result list option" where
  "portal_found q = Inr (Some [\<lparr> appid = Some 400, name = Some (ascii ''Portal'') \<rparr>])"


definition example_config :: config where
  "example_config =
     \<lparr> min_change_abs = 0, min_change_percent = 1, cooldown = 300, capacity = 3,
       recent_events = 10, label = (\<lambda>t g. title g), describe = (\<lambda>t g. []) \<rparr>"

definition plain_game :: "rat game" where
  "plain_game =
     \<lparr> g_id = ascii ''portal'', title = ascii ''Portal'', source = Steam, external_id = None,
       current_price = Some 1000, original_price = None, currency = Some (ascii ''RUB''),
       discount_percent = None, is_tracked = True \<rparr>"

definition discounted_game :: "rat game" where
  "discounted_game = plain_game\<lparr>discount_percent := Some 20\<rparr>"

definition core_of :: "rat game \<Rightarrow> core" where
  "core_of g = \<lparr> store = [g], ledger = [], next_event = 0, last_appended = (\<lambda>k. None) \<rparr>"

definition price_update :: "rat \<Rightarrow> rat game" where
  "price_update p =
     \<lparr> g_id = ascii ''portal'', title = ascii ''Portal'', source = Steam, external_id = None,
       current_price = Some p, original_price = None, currency = None,
       discount_percent = None, is_tracked = True \<rparr>"

definition price_drop_event :: trend_event where
  "price_drop_event =
     \<lparr> ev_id = decimal 0, ev_game_id = Some (ascii ''portal''), ev_type = Price_drop,
       ev_title = ascii ''Portal'', ev_description = [] \<rparr>"

definition offer_update :: "rat \<Rightarrow> rat \<Rightarrow> rat game" where
  "offer_update p d = (price_update p)\<lparr>discount_percent := Some d\<rparr>"

definition pricier_game :: "rat game" where
  "pricier_game = plain_game\<lparr>current_price := Some 1100\<rparr>"

definition after_drop_to_900 :: core where
  "after_drop_to_900 =
     fst (apply_update example_config 0 (offer_update 900 20) (core_of discounted_game))"

definition after_drop_to_1000 :: core where
  "after_drop_to_1000 =
     fst (apply_update example_config 0 (price_update 1000) (core_of pricier_game))"

definition unavailable_llm :: "nat \<Rightarrow> context_payload \<Rightarrow> core_error + jsstring" where
  "unavailable_llm attempt payload = Inl CollaboratorUnavailable"


section \<open>The normalisation of a title into an id\<close>

lemma ws_runs_Cons: "\<exists>r rs. ws_runs (c # cs) = (c # r) # rs"
  by (cases "ws_runs cs") auto

lemma concat_ws_runs: "concat (ws_runs s) = s"
  by (induction s) (auto split: list.splits)

lemma ws_runs_nonempty: "r \<in> set (ws_runs s) \<Longrightarrow> r \<noteq> []"
  by (induction s arbitrary: r) (auto split: list.splits if_splits)

lemma ws_runs_uniform: "r \<in> set (ws_runs s) \<Longrightarrow> x \<in> set r \<Longrightarrow> is_ws x = is_ws (hd r)"
proof (induction s arbitrary: r x)
  case Nil
  then show ?case by simp
next
  case (Cons c cs)
  show ?case
  proof (cases "ws_runs cs")
    case Nil
    then show ?thesis using Cons.prems by simp
  next
    case (Cons q qs)
    have q: "\<And>y. y \<in> set q \<Longrightarrow> is_ws y = is_ws (hd q)"
      using Cons.IH [of q] Cons by simp
    have qs: "\<And>r' y. r' \<in> set qs \<Longrightarrow> y \<in> set r' \<Longrightarrow> is_ws y = is_ws (hd r')"
      using Cons.IH Cons by simp
    show ?thesis
      using Cons.prems Cons q qs by (auto split: if_splits)
  qed
qed

text \<open>The runs are maximal: neighbouring runs are of different kinds.\<close>

lemma ws_runs_alternate:
  "successively (\<lambda>r r'. is_ws (hd r) \<noteq> is_ws (hd r')) (ws_runs s)"
proof (induction s)
  case Nil
  then show ?case by simp
next
  case (Cons c cs)
  show ?case
  proof (cases "ws_runs cs")
    case Nil
    then show ?thesis by simp
  next
    case (Cons r rs)
    then show ?thesis
      using Cons.IH by (cases rs) auto
  qed
qed

lemma hyphenate_runs_Nil: "hyphenate_runs [] = []"
  by (simp add: hyphenate_runs_def)

lemma hyphenate_runs_other:
  assumes c: "\<not> is_ws c"
  shows "hyphenate_runs (c # cs) = c # hyphenate_runs cs"
proof (cases cs)
  case Nil
  then show ?thesis using c by (simp add: hyphenate_runs_def hyphenate_run_def)
next
  case (Cons d ds)
  obtain r rs where r: "ws_runs (d # ds) = (d # r) # rs"
    using ws_runs_Cons by blast
  show ?thesis
    using c r Cons by (simp add: hyphenate_runs_def hyphenate_run_def)
qed

lemma hyphenate_runs_ws:
  "is_ws c \<Longrightarrow> hyphenate_runs (c # cs) = hyphen # hyphenate_runs (dropWhile is_ws cs)"
proof (induction cs arbitrary: c)
  case Nil
  then show ?case by (simp add: hyphenate_runs_def hyphenate_run_def)
next
  case (Cons d ds)
  obtain r rs where r: "ws_runs (d # ds) = (d # r) # rs"
    using ws_runs_Cons by blast
  show ?case
  proof (cases "is_ws d")
    case True
    have "hyphenate_runs (d # ds) = hyphen # hyphenate_runs (dropWhile is_ws ds)"
      using Cons.IH [OF True] .
    then have rs: "concat (map hyphenate_run rs) = hyphenate_runs (dropWhile is_ws ds)"
      using r True by (simp add: hyphenate_runs_def hyphenate_run_def)
    have "hyphenate_runs (c # d # ds) = hyphen # concat (map hyphenate_run rs)"
      using r True Cons.prems by (simp add: hyphenate_runs_def hyphenate_run_def)
    then show ?thesis using rs True by simp
  next
    case False
    have "hyphenate_runs (c # d # ds) = hyphen # hyphenate_runs (d # ds)"
      using r False Cons.prems by (simp add: hyphenate_runs_def hyphenate_run_def)
    then show ?thesis using False by simp
  qed
qed

lemma replace_whitespace_runs: "replace_whitespace s = hyphenate_runs s"
  by (induction s rule: replace_whitespace.induct)
     (simp_all add: hyphenate_runs_Nil hyphenate_runs_other hyphenate_runs_ws)


section \<open>Adding a game through the watchlist\<close>

text \<open>
  Claim C6. Whenever \<^verbatim>\<open>handleAdd\<close> adds a game (the title is not blank), the id of the
  Game it creates is the title lowercased with every maximal run of whitespace replaced by
  one hyphen (\<open>hyphenate_runs\<close>, which \<open>replace_whitespace_runs\<close> shows to be what the
  regular-expression replace of the source computes). The id depends on the title alone:
  a second add of the same title, with any other price, lookup result and list, yields the
  same id.
\<close>

theorem handleAdd_id_from_title:
  assumes "trim (w_title st) \<noteq> []" and "w_title st' = w_title st"
  shows "\<exists>g g'. snd (handleAdd toLowerCase Number get gs st) = Some (gs @ [g])
           \<and> g_id g = hyphenate_runs (toLowerCase (w_title st))
           \<and> snd (handleAdd toLowerCase Number' get' gs' st') = Some (gs' @ [g'])
           \<and> g_id g' = g_id g"
  using assms by (simp add: handleAdd_def Let_def newGame_def replace_whitespace_runs)

theorem handleAdd_id_from_title_witness:
  "trim (w_title half_life_panel) \<noteq> []
   \<and> w_title (half_life_panel\<lparr>w_price := ascii ''499''\<rparr>) = w_title half_life_panel
   \<and> hyphenate_runs (ascii_toLowerCase (w_title half_life_panel)) = ascii ''-half-life-2''
   \<and> (\<exists>g g'. snd (handleAdd ascii_toLowerCase (\<lambda>_. 0::rat) (\<lambda>_. Inl RequestFailed) [] half_life_panel)
                 = Some ([] @ [g])
           \<and> g_id g = hyphenate_runs (ascii_toLowerCase (w_title half_life_panel))
           \<and> snd (handleAdd ascii_toLowerCase (\<lambda>_. 499::rat) (\<lambda>_. Inr None) []
                     (half_life_panel\<lparr>w_price := ascii ''499''\<rparr>))
                 = Some ([] @ [g'])
           \<and> g_id g' = g_id g)"
proof -
  have h1: "trim (w_title half_life_panel) \<noteq> []"
    by (simp add: half_life_panel_def ascii_def trim_def is_ws_def)
  have h2: "w_title (half_life_panel\<lparr>w_price := ascii ''499''\<rparr>) = w_title half_life_panel"
    by simp
  have h3: "hyphenate_runs (ascii_toLowerCase (w_title half_life_panel)) = ascii ''-half-life-2''"
    unfolding replace_whitespace_runs [symmetric]
    by (simp add: half_life_panel_def ascii_def ascii_toLowerCase_def is_ws_def hyphen_def)
  note h4 = handleAdd_id_from_title [OF h1 h2, where toLowerCase = ascii_toLowerCase
      and Number = "\<lambda>_. 0::rat" and get = "\<lambda>_. Inl RequestFailed" and gs = "[]"
      and Number' = "\<lambda>_. 499::rat" and get' = "\<lambda>_. Inr None" and gs' = "[]"]
  show ?thesis
    using h1 h2 h3 h4 by blast
qed

text \<open>
  Claim C7. When the storefront lookup fails (the request fails, or its data is null or an
  empty list), \<^verbatim>\<open>searchSteamGame\<close> returns null instead of an error, and \<^verbatim>\<open>handleAdd\<close>
  still appends a Game to the watchlist: its title is the title the user typed (trimmed of
  surrounding whitespace, as \<^verbatim>\<open>title.trim()\<close>) and its external_id is null. The only
  error App can show afterwards is that of saving the list, never one of the lookup.
\<close>

theorem lookup_failure_adds_unenriched:
  assumes "trim (w_title st) \<noteq> []"
    and "get (trim (w_title st)) = Inl e \<or> get (trim (w_title st)) = Inr None
         \<or> get (trim (w_title st)) = Inr (Some [])"
  shows "searchSteamGame get (trim (w_title st)) = None
       \<and> (\<exists>g. handleAdd toLowerCase Number get (games a) st
                  = (st\<lparr>w_title := [], w_price := [], w_loading := False\<rparr>, Some (games a @ [g]))
              \<and> title g = trim (w_title st) \<and> external_id g = None
              \<and> games (fst (watchlist_add toLowerCase Number get post (a, st))) = games a @ [g]
              \<and> error (fst (watchlist_add toLowerCase Number get post (a, st)))
                  = (case post (games a @ [g]) of Inr _ \<Rightarrow> error a | Inl _ \<Rightarrow> Some save_error_text))"
proof -
  have s: "searchSteamGame get (trim (w_title st)) = None"
    using assms(2) by (auto simp: searchSteamGame_def)
  show ?thesis
    using assms(1) s
    by (simp add: watchlist_add_def handleAdd_def Let_def newGame_def updateWatchlist_def
        split: sum.splits)
qed

theorem lookup_failure_adds_unenriched_witness:
  "trim (w_title half_life_panel) \<noteq> []
   \<and> searchSteamGame (\<lambda>_. Inl RequestFailed) (trim (w_title half_life_panel)) = None
   \<and> (\<exists>g. handleAdd ascii_toLowerCase (\<lambda>_. 0::rat) (\<lambda>_. Inl RequestFailed) (games empty_app) half_life_panel
                  = (half_life_panel\<lparr>w_title := [], w_price := [], w_loading := False\<rparr>,
                     Some (games empty_app @ [g]))
          \<and> title g = ascii ''Half  Life 2'' \<and> external_id g = None
          \<and> games (fst (watchlist_add ascii_toLowerCase (\<lambda>_. 0::rat) (\<lambda>_. Inl RequestFailed)
                     (\<lambda>_. Inr ()) (empty_app, half_life_panel))) = games empty_app @ [g])"
proof -
  have h1: "trim (w_title half_life_panel) \<noteq> []"
    by (simp add: half_life_panel_def ascii_def trim_def is_ws_def)
  have h2: "(\<lambda>_. Inl RequestFailed) (trim (w_title half_life_panel)) = Inl RequestFailed
      \<or> (\<lambda>_. Inl RequestFailed) (trim (w_title half_life_panel)) = Inr None
      \<or> (\<lambda>_. Inl RequestFailed) (trim (w_title half_life_panel)) = Inr (Some [])"
    by simp
  have h3: "trim (w_title half_life_panel) = ascii ''Half  Life 2''"
    by (simp add: half_life_panel_def ascii_def trim_def is_ws_def)
  note h4 = lookup_failure_adds_unenriched [OF h1 h2, where toLowerCase = ascii_toLowerCase
      and Number = "\<lambda>_. 0::rat" and a = empty_app and post = "\<lambda>_. Inr ()"]
  show ?thesis
    using h1 h3 h4 by auto
qed

lemma handleAdd_portal:
  "handleAdd ascii_toLowerCase (\<lambda>_. 0::rat) portal_found [] portal_panel =
     (\<lparr> w_title = [], w_price = [], w_loading = False \<rparr>,
      Some [\<lparr> g_id = ascii ''portal'', title = ascii ''Portal'', source = Steam,
              external_id = Some (ascii ''400''), current_price = None, original_price = None,
              currency = Some (ascii ''RUB''), discount_percent = None, is_tracked = True \<rparr>])"
  by (simp add: handleAdd_def Let_def newGame_def portal_panel_def portal_found_def
      searchSteamGame_def ascii_def trim_def is_ws_def ascii_toLowerCase_def hyphen_def
      toString_appid_def decimal.simps)

text \<open>
  Claim C10. Every Game that \<^verbatim>\<open>handleAdd\<close> hands to \<^verbatim>\<open>onChange\<close> has source steam,
  currency RUB and is_tracked true, whatever the storefront lookup returned, and its
  current_price is absent when the price field is empty.
\<close>

theorem handleAdd_fixed_fields:
  assumes "handleAdd toLowerCase Number get gs st = (st', Some gs')"
  shows "\<exists>g. gs' = gs @ [g] \<and> source g = Steam \<and> currency g = Some (ascii ''RUB'')
           \<and> is_tracked g \<and> (w_price st = [] \<longrightarrow> current_price g = None)"
  using assms by (auto simp: handleAdd_def Let_def newGame_def split: if_splits)


theorem handleAdd_fixed_fields_witness:
  "w_price portal_panel = []
   \<and> (\<exists>g. the (snd (handleAdd ascii_toLowerCase (\<lambda>_. 0::rat) portal_found [] portal_panel)) = [] @ [g]
          \<and> source g = Steam \<and> currency g = Some (ascii ''RUB'') \<and> is_tracked g
          \<and> current_price g = None)"
proof -
  have p: "w_price portal_panel = []"
    by (simp add: portal_panel_def)
  show ?thesis
    using p handleAdd_fixed_fields [OF handleAdd_portal] by (simp add: handleAdd_portal)
qed

text \<open>
  Claim C8, evaluated on the code: \<^verbatim>\<open>handleAdd\<close> appends the new Game without looking at
  the ids already in the list, so adding the title Portal twice to an empty watchlist
  leaves two Games with the id portal in App's list.
\<close>

theorem add_same_title_twice_shares_id:
  "map g_id (games (fst (watchlist_add ascii_toLowerCase (\<lambda>_. 0::rat) portal_found (\<lambda>_. Inr ())
       (fst (watchlist_add ascii_toLowerCase (\<lambda>_. 0::rat) portal_found (\<lambda>_. Inr ())
          (empty_app, portal_panel)), portal_panel))))
     = [ascii ''portal'', ascii ''portal'']"
  by (simp add: watchlist_add_def handleAdd_def Let_def newGame_def portal_panel_def
      updateWatchlist_def empty_app_def ascii_def trim_def is_ws_def ascii_toLowerCase_def
      hyphen_def)


section \<open>Sending a chat message\<close>

text \<open>
  Claim C9. When the input trims to the empty string, or a send is still in flight,
  \<^verbatim>\<open>handleSend\<close> posts no request, leaves the panel (message history, input field and
  sending flag) as it was and calls no callback, so App's state is unchanged too.
\<close>

theorem handleSend_noop:
  assumes "trim (input st) = [] \<or> sending st"
  shows "requests (handleSend post st) = [] \<and> panel (handleSend post st) = st
       \<and> appended (handleSend post st) = None \<and> chat_send post (a, st) = (a, st)"
  using assms by (auto simp: handleSend_def chat_send_def Let_def)

theorem handleSend_noop_witness:
  "(trim (input blank_input_panel) = [] \<or> sending blank_input_panel)
   \<and> requests (handleSend ok_reply blank_input_panel) = []
   \<and> panel (handleSend ok_reply blank_input_panel) = blank_input_panel
   \<and> chat_send ok_reply (empty_app, blank_input_panel) = (empty_app, blank_input_panel)
   \<and> (trim (input in_flight_panel) = [] \<or> sending in_flight_panel)
   \<and> trim (input in_flight_panel) \<noteq> []
   \<and> requests (handleSend ok_reply in_flight_panel) = []
   \<and> panel (handleSend ok_reply in_flight_panel) = in_flight_panel
   \<and> chat_send ok_reply (empty_app, in_flight_panel) = (empty_app, in_flight_panel)"
proof -
  have h: "trim (input blank_input_panel) = [] \<or> sending blank_input_panel"
    by (simp add: blank_input_panel_def ascii_def trim_def is_ws_def)
  have k: "trim (input in_flight_panel) = [] \<or> sending in_flight_panel"
    by (simp add: in_flight_panel_def)
  have k': "trim (input in_flight_panel) \<noteq> []"
    by (simp add: in_flight_panel_def ascii_def trim_def is_ws_def)
  note n = handleSend_noop [OF h, where a = empty_app and post = ok_reply]
  note m = handleSend_noop [OF k, where a = empty_app and post = ok_reply]
  show ?thesis
    using h k k' n m by blast
qed


section \<open>The Event Ledger\<close>

lemma last_n_append_last_n: "last_n n (last_n n xs @ ys) = last_n n (xs @ ys)"
proof (cases "n \<le> length xs")
  case True
  then have "length xs + length ys - n = length ys + (length xs - n)"
    by simp
  then show ?thesis
    using True by (simp add: last_n_def)
next
  case False
  then show ?thesis
    by (simp add: last_n_def)
qed

lemma append_event_twice:
  "append_event cap e' (append_event cap e evs) = last_n cap (evs @ [e, e'])"
  by (simp add: append_event_def last_n_append_last_n)

lemma foldl_append_event:
  "es \<noteq> [] \<Longrightarrow> foldl (\<lambda>l e. append_event cap e l) evs es = last_n cap (evs @ es)"
proof (induction es arbitrary: evs rule: rev_induct)
  case Nil
  then show ?case by simp
next
  case (snoc e es)
  show ?case
  proof (cases "es = []")
    case True
    then show ?thesis by (simp add: append_event_def)
  next
    case False
    then show ?thesis
      using snoc.IH [OF False, of evs]
      by (simp add: append_event_def last_n_append_last_n)
  qed
qed

text \<open>
  Claim C4. In a ledger of capacity 3, whatever it held before, after five events
  \<open>e1\<close> to \<open>e5\<close> are appended one after the other, \<^verbatim>\<open>list(limit=10)\<close> returns
  exactly the three most recent ones, \<open>e3\<close>, \<open>e4\<close>, \<open>e5\<close>, most recent last: the
  older ones were evicted, oldest first. (\<^verbatim>\<open>append\<close> itself never drops the event it
  is given; deduplication is the Change Detector's.)
\<close>

theorem ledger_capacity_three_keeps_last_three:
  "list_events
     (append_event 3 e5 (append_event 3 e4 (append_event 3 e3
        (append_event 3 e2 (append_event 3 e1 evs))))) 10 None
   = [e3, e4, e5]"
proof -
  have "foldl (\<lambda>l e. append_event 3 e l) evs [e1, e2, e3, e4, e5]
      = last_n 3 (evs @ [e1, e2, e3, e4, e5])"
    by (rule foldl_append_event) simp
  then have "append_event 3 e5 (append_event 3 e4 (append_event 3 e3
        (append_event 3 e2 (append_event 3 e1 evs)))) = [e3, e4, e5]"
    by (simp add: last_n_def)
  then show ?thesis
    by (simp add: list_events_def last_n_def)
qed


section \<open>The Change Detector\<close>

lemmas example_defs =
  example_config_def plain_game_def discounted_game_def pricier_game_def
  core_of_def price_update_def offer_update_def price_drop_event_def

lemmas core_defs =
  apply_update_def emitted_def detect_def fires.simps prior_price_def positive_def
  suppressed_def new_event_def merge_def preserved_def put_def get_game_def append_event_def
  last_n_def Let_def

lemma get_plain: "get_game (g_id (price_update p)) (store (core_of plain_game)) = Some plain_game"
  by (simp add: example_defs get_game_def)

lemma get_discounted:
  "get_game (g_id (offer_update p d)) (store (core_of discounted_game)) = Some discounted_game"
  by (simp add: example_defs get_game_def)

lemma detect_find: "detect cfg prior u = find (fires cfg prior u) priority_order"
  by (simp add: detect_def priority_order_def)

lemma g_id_merge: "g_id (merge prior u) = g_id u"
  by (simp add: merge_def split: option.splits)

lemma apply_update_cases:
  "emitted cfg u c = None \<Longrightarrow>
     snd (snd (apply_update cfg now u c)) = None \<and> ledger (fst (apply_update cfg now u c)) = ledger c"
  "emitted cfg u c = Some e \<Longrightarrow> suppressed cfg c (g_id u) (ev_type e) now \<Longrightarrow>
     snd (snd (apply_update cfg now u c)) = None \<and> ledger (fst (apply_update cfg now u c)) = ledger c"
  "emitted cfg u c = Some e \<Longrightarrow> \<not> suppressed cfg c (g_id u) (ev_type e) now \<Longrightarrow>
     snd (snd (apply_update cfg now u c)) = Some e
     \<and> ledger (fst (apply_update cfg now u c)) = append_event (capacity cfg) e (ledger c)"
  by (simp_all add: apply_update_def Let_def)

lemma emitted_Some:
  "detect cfg (get_game (g_id u) (store c)) u = Some t \<Longrightarrow>
     \<exists>e. emitted cfg u c = Some e \<and> ev_type e = t \<and> ev_game_id e = Some (g_id u)"
  by (simp add: emitted_def Let_def new_event_def g_id_merge)

lemma emitted_None:
  "detect cfg (get_game (g_id u) (store c)) u = None \<Longrightarrow> emitted cfg u c = None"
  by (simp add: emitted_def)

text \<open>
  Claim C1, as amended. For every update on which more than one rule fires, the detector
  selects exactly one TrendEvent: its type is the first type of the priority order
  discount_started, price_drop, price_increase, discount_ended, back_in_stock whose rule
  fires, and it names the game's id. \<^verbatim>\<open>apply\<close> emits at most one event, never two: it
  returns and appends this one event, unless an event of that type was appended for the
  game within the cooldown window; then the event is suppressed, \<^verbatim>\<open>apply\<close> emits none and
  the ledger stays as it was.
\<close>

theorem tie_break_single_event:
  assumes "1 < length (filter (fires cfg (get_game (g_id u) (store c)) u) priority_order)"
  shows "\<exists>t e. find (fires cfg (get_game (g_id u) (store c)) u) priority_order = Some t
           \<and> emitted cfg u c = Some e \<and> ev_type e = t \<and> ev_game_id e = Some (g_id u)
           \<and> (\<not> suppressed cfg c (g_id u) t now
                \<and> snd (snd (apply_update cfg now u c)) = Some e
                \<and> ledger (fst (apply_update cfg now u c)) = append_event (capacity cfg) e (ledger c)
              \<or> suppressed cfg c (g_id u) t now
                \<and> snd (snd (apply_update cfg now u c)) = None
                \<and> ledger (fst (apply_update cfg now u c)) = ledger c)"
proof -
  let ?prior = "get_game (g_id u) (store c)"
  have "filter (fires cfg ?prior u) priority_order \<noteq> []"
    using assms by auto
  then obtain t where t: "find (fires cfg ?prior u) priority_order = Some t"
    by (cases "find (fires cfg ?prior u) priority_order")
       (auto simp: find_None_iff filter_empty_conv)
  then have "detect cfg ?prior u = Some t"
    by (simp add: detect_find)
  then obtain e where e: "emitted cfg u c = Some e" "ev_type e = t" "ev_game_id e = Some (g_id u)"
    using emitted_Some by blast
  show ?thesis
    using t e apply_update_cases(2,3) [OF e(1), where now = now]
    by (cases "suppressed cfg c (g_id u) t now") auto
qed

theorem tie_break_single_event_witness:
  "1 < length (filter (fires example_config
          (get_game (g_id (offer_update 800 0)) (store (core_of discounted_game))) (offer_update 800 0))
        priority_order)
   \<and> filter (fires example_config
          (get_game (g_id (offer_update 800 0)) (store (core_of discounted_game))) (offer_update 800 0))
        priority_order = [Price_drop, Discount_ended]
   \<and> (\<exists>t e. find (fires example_config
                (get_game (g_id (offer_update 800 0)) (store (core_of discounted_game)))
                (offer_update 800 0)) priority_order = Some t
          \<and> emitted example_config (offer_update 800 0) (core_of discounted_game) = Some e
          \<and> ev_type e = t \<and> ev_game_id e = Some (g_id (offer_update 800 0)))
   \<and> map_option ev_type
        (snd (snd (apply_update example_config 0 (offer_update 800 0) (core_of discounted_game))))
      = Some Price_drop
   \<and> length (ledger (fst (apply_update example_config 0 (offer_update 800 0)
        (core_of discounted_game)))) = 1"
proof -
  have f: "filter (fires example_config
          (get_game (g_id (offer_update 800 0)) (store (core_of discounted_game))) (offer_update 800 0))
        priority_order = [Price_drop, Discount_ended]"
    unfolding get_discounted
    by (simp add: priority_order_def fires.simps prior_price_def positive_def merge_def
        preserved_def example_defs)
  have h: "1 < length (filter (fires example_config
          (get_game (g_id (offer_update 800 0)) (store (core_of discounted_game))) (offer_update 800 0))
        priority_order)"
    unfolding f by simp
  have v: "map_option ev_type
        (snd (snd (apply_update example_config 0 (offer_update 800 0) (core_of discounted_game))))
      = Some Price_drop"
    by (simp add: core_defs example_defs)
  have l: "length (ledger (fst (apply_update example_config 0 (offer_update 800 0)
        (core_of discounted_game)))) = 1"
    by (simp add: core_defs example_defs)
  note t = tie_break_single_event [OF h, where now = 0]
  show ?thesis
    using h f v l t by blast
qed

text \<open>
  Claim C1 as stated fails. A game at 1000 with a discount of 20 percent drops to 900 at
  second 0 (a price_drop is appended). At second 60, inside the cooldown of 300 seconds,
  an update sets the price to 800 and the discount to 0: the rules price_drop and
  discount_ended both fire, the selected price_drop is suppressed, and \<^verbatim>\<open>apply\<close> emits
  no event.
\<close>

theorem tie_suppressed_emits_none:
  "filter (fires example_config (get_game (g_id (offer_update 800 0)) (store after_drop_to_900))
       (offer_update 800 0)) priority_order
     = [Price_drop, Discount_ended]
   \<and> snd (snd (apply_update example_config 60 (offer_update 800 0) after_drop_to_900)) = None
   \<and> ledger (fst (apply_update example_config 60 (offer_update 800 0) after_drop_to_900))
     = ledger after_drop_to_900"
  by (simp add: after_drop_to_900_def priority_order_def core_defs example_defs)

lemma get_game_Some: "get_game i st = Some g \<Longrightarrow> g_id g = i"
  by (auto simp: get_game_def find_Some_iff)











lemma fires_discount_ended_iff:
  "fires cfg (Some g) u Discount_ended
     \<longleftrightarrow> positive (discount_percent g) \<and> discount_percent u = Some 0"
  by (auto simp: fires.simps merge_def preserved_def positive_def split: option.splits)

text \<open>
  Claim C3, as amended. For a game whose prior current_price is 1000, under the default
  thresholds: an update with current_price 980 fires price_drop and the detector selects
  exactly one price_drop event with the game's id, which \<^verbatim>\<open>apply\<close> emits and appends
  unless a price_drop was appended for the game within the cooldown window (then it is
  suppressed and \<^verbatim>\<open>apply\<close> emits none). An update with current_price 996 fires neither
  price rule; it emits no event, unless it also ends a discount (the prior
  discount_percent is positive and the update sets it to 0), in which case the detector
  selects a discount_ended event.
\<close>

theorem price_threshold_at_1000:
  assumes "get_game (g_id u) (store c) = Some g" and "current_price g = Some 1000"
    and "min_change_abs cfg = 0" and "min_change_percent cfg = 1"
  shows "(current_price u = Some 980 \<longrightarrow>
           fires cfg (Some g) u Price_drop
           \<and> (\<exists>e. emitted cfg u c = Some e \<and> ev_type e = Price_drop \<and> ev_game_id e = Some (g_id g)
                \<and> (\<not> suppressed cfg c (g_id g) Price_drop now
                     \<and> snd (snd (apply_update cfg now u c)) = Some e
                     \<and> ledger (fst (apply_update cfg now u c))
                        = append_event (capacity cfg) e (ledger c)
                   \<or> suppressed cfg c (g_id g) Price_drop now
                     \<and> snd (snd (apply_update cfg now u c)) = None
                     \<and> ledger (fst (apply_update cfg now u c)) = ledger c)))
       \<and> (current_price u = Some 996 \<longrightarrow>
            \<not> fires cfg (Some g) u Price_drop \<and> \<not> fires cfg (Some g) u Price_increase
            \<and> (fires cfg (Some g) u Discount_ended
                 \<longleftrightarrow> positive (discount_percent g) \<and> discount_percent u = Some 0)
            \<and> (\<not> fires cfg (Some g) u Discount_ended \<longrightarrow>
                 emitted cfg u c = None
                 \<and> snd (snd (apply_update cfg now u c)) = None
                 \<and> ledger (fst (apply_update cfg now u c)) = ledger c)
            \<and> (fires cfg (Some g) u Discount_ended \<longrightarrow>
                 (\<exists>e. emitted cfg u c = Some e \<and> ev_type e = Discount_ended)))"
proof -
  have id: "g_id g = g_id u"
    using assms(1) by (rule get_game_Some)
  have drop: "current_price u = Some 980 \<longrightarrow>
           fires cfg (Some g) u Price_drop
           \<and> (\<exists>e. emitted cfg u c = Some e \<and> ev_type e = Price_drop \<and> ev_game_id e = Some (g_id g)
                \<and> (\<not> suppressed cfg c (g_id g) Price_drop now
                     \<and> snd (snd (apply_update cfg now u c)) = Some e
                     \<and> ledger (fst (apply_update cfg now u c))
                        = append_event (capacity cfg) e (ledger c)
                   \<or> suppressed cfg c (g_id g) Price_drop now
                     \<and> snd (snd (apply_update cfg now u c)) = None
                     \<and> ledger (fst (apply_update cfg now u c)) = ledger c))"
  proof
    assume p: "current_price u = Some 980"
    have f: "fires cfg (Some g) u Price_drop"
      using assms p by (simp add: fires.simps prior_price_def)
    have "detect cfg (get_game (g_id u) (store c)) u = Some Price_drop"
      using assms p by (simp add: detect_def fires.simps(1,3) prior_price_def)
    then obtain e where e: "emitted cfg u c = Some e" "ev_type e = Price_drop"
        "ev_game_id e = Some (g_id u)"
      using emitted_Some by blast
    show "fires cfg (Some g) u Price_drop
           \<and> (\<exists>e. emitted cfg u c = Some e \<and> ev_type e = Price_drop \<and> ev_game_id e = Some (g_id g)
                \<and> (\<not> suppressed cfg c (g_id g) Price_drop now
                     \<and> snd (snd (apply_update cfg now u c)) = Some e
                     \<and> ledger (fst (apply_update cfg now u c))
                        = append_event (capacity cfg) e (ledger c)
                   \<or> suppressed cfg c (g_id g) Price_drop now
                     \<and> snd (snd (apply_update cfg now u c)) = None
                     \<and> ledger (fst (apply_update cfg now u c)) = ledger c))"
      using f e id apply_update_cases(2,3) [OF e(1), where now = now]
      by (cases "suppressed cfg c (g_id u) Price_drop now") auto
  qed
  have small: "current_price u = Some 996 \<longrightarrow>
            \<not> fires cfg (Some g) u Price_drop \<and> \<not> fires cfg (Some g) u Price_increase
            \<and> (fires cfg (Some g) u Discount_ended
                 \<longleftrightarrow> positive (discount_percent g) \<and> discount_percent u = Some 0)
            \<and> (\<not> fires cfg (Some g) u Discount_ended \<longrightarrow>
                 emitted cfg u c = None
                 \<and> snd (snd (apply_update cfg now u c)) = None
                 \<and> ledger (fst (apply_update cfg now u c)) = ledger c)
            \<and> (fires cfg (Some g) u Discount_ended \<longrightarrow>
                 (\<exists>e. emitted cfg u c = Some e \<and> ev_type e = Discount_ended))"
  proof
    assume p: "current_price u = Some 996"
    have pd: "\<not> fires cfg (Some g) u Price_drop"
      using assms p by (simp add: fires.simps prior_price_def)
    have pi: "\<not> fires cfg (Some g) u Price_increase"
      using assms p by (simp add: fires.simps prior_price_def)
    have ds: "\<not> fires cfg (Some g) u Discount_started"
      using assms by (simp add: fires.simps prior_price_def)
    have quiet: "emitted cfg u c = None
          \<and> snd (snd (apply_update cfg now u c)) = None
          \<and> ledger (fst (apply_update cfg now u c)) = ledger c"
      if d: "\<not> fires cfg (Some g) u Discount_ended"
    proof -
      have bs: "\<not> fires cfg (Some g) u Back_in_stock"
        using assms by (simp add: fires.simps)
      have "detect cfg (get_game (g_id u) (store c)) u = None"
        using assms(1) pd pi ds d bs by (simp add: detect_def)
      then have n: "emitted cfg u c = None"
        by (rule emitted_None)
      then show ?thesis
        using apply_update_cases(1) [OF n] by simp
    qed
    have ended: "\<exists>e. emitted cfg u c = Some e \<and> ev_type e = Discount_ended"
      if d: "fires cfg (Some g) u Discount_ended"
    proof -
      have "detect cfg (get_game (g_id u) (store c)) u = Some Discount_ended"
        using assms(1) pd pi ds d by (simp add: detect_def)
      then show ?thesis
        using emitted_Some by blast
    qed
    show "\<not> fires cfg (Some g) u Price_drop \<and> \<not> fires cfg (Some g) u Price_increase
            \<and> (fires cfg (Some g) u Discount_ended
                 \<longleftrightarrow> positive (discount_percent g) \<and> discount_percent u = Some 0)
            \<and> (\<not> fires cfg (Some g) u Discount_ended \<longrightarrow>
                 emitted cfg u c = None
                 \<and> snd (snd (apply_update cfg now u c)) = None
                 \<and> ledger (fst (apply_update cfg now u c)) = ledger c)
            \<and> (fires cfg (Some g) u Discount_ended \<longrightarrow>
                 (\<exists>e. emitted cfg u c = Some e \<and> ev_type e = Discount_ended))"
      using pd pi quiet ended fires_discount_ended_iff [of cfg g u] by blast
  qed
  show ?thesis
    using drop small by blast
qed

theorem price_threshold_at_1000_witness:
  "get_game (g_id (price_update 980)) (store (core_of plain_game)) = Some plain_game
   \<and> get_game (g_id (price_update 996)) (store (core_of plain_game)) = Some plain_game
   \<and> get_game (g_id (offer_update 996 0)) (store (core_of discounted_game)) = Some discounted_game
   \<and> current_price plain_game = Some 1000 \<and> current_price discounted_game = Some 1000
   \<and> min_change_abs example_config = 0 \<and> min_change_percent example_config = 1
   \<and> current_price (price_update 980) = Some 980
   \<and> \<not> suppressed example_config (core_of plain_game) (g_id plain_game) Price_drop 0
   \<and> (\<exists>e. emitted example_config (price_update 980) (core_of plain_game) = Some e
          \<and> ev_type e = Price_drop \<and> ev_game_id e = Some (g_id plain_game)
          \<and> snd (snd (apply_update example_config 0 (price_update 980) (core_of plain_game))) = Some e
          \<and> ledger (fst (apply_update example_config 0 (price_update 980) (core_of plain_game)))
             = append_event (capacity example_config) e (ledger (core_of plain_game)))
   \<and> current_price (price_update 996) = Some 996
   \<and> \<not> fires example_config (Some plain_game) (price_update 996) Discount_ended
   \<and> emitted example_config (price_update 996) (core_of plain_game) = None
   \<and> snd (snd (apply_update example_config 0 (price_update 996) (core_of plain_game))) = None
   \<and> ledger (fst (apply_update example_config 0 (price_update 996) (core_of plain_game)))
      = ledger (core_of plain_game)
   \<and> current_price (offer_update 996 0) = Some 996
   \<and> fires example_config (Some discounted_game) (offer_update 996 0) Discount_ended
   \<and> (\<exists>e. emitted example_config (offer_update 996 0) (core_of discounted_game) = Some e
          \<and> ev_type e = Discount_ended)"
proof -
  have h2: "current_price plain_game = Some 1000"
    by (simp add: plain_game_def)
  have h2': "current_price discounted_game = Some 1000"
    by (simp add: plain_game_def discounted_game_def)
  have h3: "min_change_abs example_config = 0"
    by (simp add: example_config_def)
  have h4: "min_change_percent example_config = 1"
    by (simp add: example_config_def)
  have p980: "current_price (price_update 980) = Some 980"
    by (simp add: price_update_def)
  have p996: "current_price (price_update 996) = Some 996"
    by (simp add: price_update_def)
  have p996': "current_price (offer_update 996 0) = Some 996"
    by (simp add: price_update_def offer_update_def)
  have ns: "\<not> suppressed example_config (core_of plain_game) (g_id plain_game) Price_drop 0"
    by (simp add: suppressed_def core_of_def)
  have pos: "positive (discount_percent discounted_game)"
    by (simp add: positive_def discounted_game_def)
  have zero: "discount_percent (offer_update 996 0) = Some 0"
    by (simp add: offer_update_def)
  have npos: "\<not> positive (discount_percent plain_game)"
    by (simp add: positive_def plain_game_def)
  note a = price_threshold_at_1000 [OF get_plain h2 h3 h4, where p1 = 980 and now = 0]
  note b = price_threshold_at_1000 [OF get_plain h2 h3 h4, where p1 = 996 and now = 0]
  note d = price_threshold_at_1000 [OF get_discounted h2' h3 h4, where p1 = 996 and d1 = 0
      and now = 0]
  show ?thesis
    using get_plain get_discounted h2 h2' h3 h4 p980 p996 p996' ns pos zero npos a b d
    by blast
qed

text \<open>
  Claim C3 as stated fails in both halves. A game drops from 1100 to 1000 at second 0 (a
  price_drop is appended); at second 60, inside the cooldown of 300 seconds, the update to
  980 fires price_drop again, it is suppressed, and \<^verbatim>\<open>apply\<close> emits no event. And for a
  game at 1000 with a discount of 20 percent, the update that sets the price to 996 and
  the discount to 0 emits a discount_ended event.
\<close>

theorem price_threshold_exceptions:
  "map_option current_price (get_game (g_id (price_update 980)) (store after_drop_to_1000))
     = Some (Some 1000)
   \<and> current_price (price_update 980) = Some 980
   \<and> snd (snd (apply_update example_config 60 (price_update 980) after_drop_to_1000)) = None
   \<and> ledger (fst (apply_update example_config 60 (price_update 980) after_drop_to_1000))
     = ledger after_drop_to_1000
   \<and> current_price discounted_game = Some 1000
   \<and> current_price (offer_update 996 0) = Some 996
   \<and> map_option ev_type
        (snd (snd (apply_update example_config 0 (offer_update 996 0) (core_of discounted_game))))
      = Some Discount_ended"
  by (simp add: after_drop_to_1000_def core_defs example_defs)


section \<open>The Context Assembler\<close>

text \<open>
  Claim C5. \<^verbatim>\<open>buildContext\<close> leaves the state as it found it, and a chat turn whose
  language-model call fails (on the first attempt and on the retry) returns the failure
  with the Belief Store and the Event Ledger, indeed the whole state, exactly as before.
  In the client, a failed post to \<^verbatim>\<open>/chat\<close> leaves App's games and events unchanged.
\<close>

theorem failed_chat_turn_changes_nothing:
  assumes "llm 0 (fst (buildContext cfg hist msg c)) = Inl e0"
    and "llm 1 (fst (buildContext cfg hist msg c)) = Inl e1"
  shows "snd (buildContext cfg hist msg c) = c
       \<and> chat_turn cfg now llm extractFacts hist msg c = (c, Inl CollaboratorUnavailable)
       \<and> store (fst (chat_turn cfg now llm extractFacts hist msg c)) = store c
       \<and> ledger (fst (chat_turn cfg now llm extractFacts hist msg c)) = ledger c
       \<and> fst (chat_send (\<lambda>req. Inl RequestFailed) (a, st)) = a"
  using assms
  by (simp add: chat_turn_def buildContext_def complete_retrying_def chat_send_def
      handleSend_def Let_def)

theorem failed_chat_turn_changes_nothing_witness:
  "unavailable_llm 0 (fst (buildContext example_config [] (ascii ''hi'') (core_of plain_game)))
     = Inl CollaboratorUnavailable
   \<and> unavailable_llm 1 (fst (buildContext example_config [] (ascii ''hi'') (core_of plain_game)))
     = Inl CollaboratorUnavailable
   \<and> chat_turn example_config 0 unavailable_llm (\<lambda>r p. [GameFact (price_update 900)])
        [] (ascii ''hi'') (core_of plain_game)
      = (core_of plain_game, Inl CollaboratorUnavailable)"
proof -
  have h: "unavailable_llm k (fst (buildContext example_config [] (ascii ''hi'') (core_of plain_game)))
     = Inl CollaboratorUnavailable" for k
    by (simp add: unavailable_llm_def)
  note t = failed_chat_turn_changes_nothing [where llm = unavailable_llm
      and cfg = example_config and hist = "[]" and msg = "ascii ''hi''" and c = "core_of plain_game"
      and now = 0 and extractFacts = "\<lambda>r p. [GameFact (price_update 900)]",
      OF h [of 0] h [of 1]]
  show ?thesis
    using h [of 0] h [of 1] t by blast
qed

end
